theory Spec2Isabelle
  imports Main "HOL-Library.Char_ord" "HOL-Library.List_Lexorder" "HOL-Library.Multiset"
begin

section \<open>Announcements endpoints of the High School Management System API\<close>

text \<open>
  A shallow embedding of \<^verbatim>\<open>src/backend/routers/announcements.py\<close>: the five
  request handlers over the announcements collection, with the teachers collection
  consulted for authentication. Every handler is a function of the collections (and, where
  it writes, returns the collection afterwards); every \<^verbatim>\<open>raise\<close> is a value.
  Strings are compared as the document store and Python compare them: lexicographically,
  character by character (the order of \<^typ>\<open>char list\<close> from the list library).
\<close>

subsection \<open>Values of the libraries the module calls\<close>

text \<open>
  A \<^verbatim>\<open>datetime\<close> is naive (no UTC offset) or aware (with one). The number is its
  position on the time line in microseconds: wall-clock time for a naive value, UTC for an
  aware one. Python orders two naive or two aware values by that position and raises
  \<^verbatim>\<open>TypeError\<close> when asked to order a naive against an aware value.
\<close>

datatype datetime = Naive int | Aware int

fun dt_ge :: "datetime \<Rightarrow> datetime \<Rightarrow> bool option" where
  "dt_ge (Naive a) (Naive b) = Some (b \<le> a)"
| "dt_ge (Aware a) (Aware b) = Some (b \<le> a)"
| "dt_ge (Naive a) (Aware b) = None"
| "dt_ge (Aware a) (Naive b) = None"

text \<open>
  What a handler raises: an \<^verbatim>\<open>HTTPException(status_code, detail)\<close>, or a
  \<^verbatim>\<open>TypeError\<close> that no handler catches (the framework answers 500).
\<close>

datatype py_exception = HTTPException nat string | TypeError

fun status_code :: "py_exception \<Rightarrow> nat" where
  "status_code (HTTPException code detail) = code"
| "status_code TypeError = 500"

text \<open>
  The library functions are parameters of the model, so that every theorem holds for
  whatever they compute:
  \<^item> \<open>fromisoformat\<close> is \<^verbatim>\<open>datetime.fromisoformat\<close>, with \<open>None\<close> for
    \<^verbatim>\<open>ValueError\<close>;
  \<^item> \<open>ObjectId\<close> is \<^verbatim>\<open>bson.ObjectId\<close> applied to a string, with \<open>None\<close> for
    the exception it raises on a malformed identifier;
  \<^item> \<open>str\<close> is Python's \<^verbatim>\<open>str\<close> on an identifier of the store.
\<close>

record 'oid library =
  fromisoformat :: "string \<Rightarrow> datetime option"
  ObjectId :: "string \<Rightarrow> 'oid option"
  str :: "'oid \<Rightarrow> string"

text \<open>\<^verbatim>\<open>s.replace('Z', '+00:00')\<close>: every \<^verbatim>\<open>Z\<close> of the string is replaced.\<close>

definition replace_Z :: "string \<Rightarrow> string" where
  "replace_Z s = concat (map (\<lambda>c. if c = CHR ''Z'' then ''+00:00'' else [c]) s)"

subsection \<open>Documents and collections\<close>

text \<open>
  An announcement document. \<open>doc_id\<close> is the key \<^verbatim>\<open>_id\<close>: an identifier of the store
  in the collection, a string in a response. \<open>start_date\<close> is \<open>None\<close> for Python's
  \<^verbatim>\<open>None\<close>.
\<close>

record 'i announcement =
  doc_id :: 'i
  message :: string
  start_date :: "string option"
  end_date :: string
  created_by :: string
  created_at :: string

text \<open>
  The announcements collection is the list of its documents in insertion order; the
  teachers collection maps a teacher's \<^verbatim>\<open>_id\<close> (the username) to the document.
\<close>

type_synonym 'oid announcements_collection = "'oid announcement list"

type_synonym 't teachers_collection = "string \<rightharpoonup> 't"

text \<open>\<^verbatim>\<open>find_one({"_id": oid})\<close>: the first document with that identifier.\<close>

definition find_one :: "'oid \<Rightarrow> 'oid announcements_collection \<Rightarrow> 'oid announcement option" where
  "find_one oid coll = find (\<lambda>a. doc_id a = oid) coll"

text \<open>
  The fields of a \<^verbatim>\<open>$set\<close>: \<open>None\<close> for a key that is not in
  \<^verbatim>\<open>update_fields\<close>. \<open>set_start_date = Some None\<close> sets the field to Python's
  \<^verbatim>\<open>None\<close>.
\<close>

record update_fields =
  set_message :: "string option"
  set_end_date :: "string option"
  set_start_date :: "string option option"

definition set_fields :: "update_fields \<Rightarrow> 'oid announcement \<Rightarrow> 'oid announcement" where
  "set_fields uf a =
     a\<lparr>message := (case set_message uf of None \<Rightarrow> message a | Some m \<Rightarrow> m),
       end_date := (case set_end_date uf of None \<Rightarrow> end_date a | Some e \<Rightarrow> e),
       start_date := (case set_start_date uf of None \<Rightarrow> start_date a | Some s \<Rightarrow> s)\<rparr>"

text \<open>\<^verbatim>\<open>update_one({"_id": oid}, {"$set": update_fields})\<close>: the first match is updated.\<close>

fun update_one ::
  "'oid \<Rightarrow> update_fields \<Rightarrow> 'oid announcements_collection \<Rightarrow> 'oid announcements_collection" where
  "update_one oid uf [] = []"
| "update_one oid uf (a # coll) =
     (if doc_id a = oid then set_fields uf a # coll else a # update_one oid uf coll)"

text \<open>
  \<^verbatim>\<open>delete_one({"_id": oid})\<close>: the first match is removed; the result is
  \<^verbatim>\<open>deleted_count\<close> and the collection afterwards.
\<close>

fun delete_one ::
  "'oid \<Rightarrow> 'oid announcements_collection \<Rightarrow> nat \<times> 'oid announcements_collection" where
  "delete_one oid [] = (0, [])"
| "delete_one oid (a # coll) =
     (if doc_id a = oid then (1, coll)
      else (case delete_one oid coll of (n, coll') \<Rightarrow> (n, a # coll')))"

text \<open>
  \<^verbatim>\<open>.sort("created_at", -1)\<close>: descending by \<open>created_at\<close>. The store leaves the
  order of documents with equal keys open; the model fixes one.
\<close>

definition sort_created_at_desc ::
  "'oid announcements_collection \<Rightarrow> 'oid announcements_collection" where
  "sort_created_at_desc coll = rev (sort_key created_at coll)"

text \<open>\<^verbatim>\<open>announcement["_id"] = str(announcement["_id"])\<close>.\<close>

definition stringify_id :: "'oid library \<Rightarrow> 'oid announcement \<Rightarrow> string announcement" where
  "stringify_id lib a =
     \<lparr>doc_id = str lib (doc_id a), message = message a, start_date = start_date a,
      end_date = end_date a, created_by = created_by a, created_at = created_at a\<rparr>"

subsection \<open>The authentication check every privileged handler starts with\<close>

text \<open>
  \<^verbatim>\<open>if not teacher_username: raise 401\<close>, then
  \<^verbatim>\<open>teachers_collection.find_one({"_id": teacher_username})\<close> and
  \<^verbatim>\<open>if not teacher: raise 401\<close>. The result is the exception, or the username that
  passed.
\<close>

definition check_teacher_authentication ::
  "'t teachers_collection \<Rightarrow> string option \<Rightarrow> py_exception + string" where
  "check_teacher_authentication teachers teacher_username =
     (case teacher_username of
        None \<Rightarrow> Inl (HTTPException 401 ''Authentication required for this action'')
      | Some u \<Rightarrow>
          if u = [] then Inl (HTTPException 401 ''Authentication required for this action'')
          else (case teachers u of
                  None \<Rightarrow> Inl (HTTPException 401 ''Invalid teacher credentials'')
                | Some teacher \<Rightarrow> Inr u))"

subsection \<open>GET /announcements/active\<close>

text \<open>
  The query: \<^verbatim>\<open>end_date >= now\<close> and (\<^verbatim>\<open>start_date\<close> is null or
  \<^verbatim>\<open>start_date <= now\<close>), \<open>now\<close> being \<^verbatim>\<open>datetime.now().isoformat()\<close>.
\<close>

definition active_query :: "string \<Rightarrow> 'oid announcement \<Rightarrow> bool" where
  "active_query now a =
     (now \<le> end_date a \<and>
      (case start_date a of None \<Rightarrow> True | Some s \<Rightarrow> s \<le> now))"

definition get_active_announcements ::
  "'oid library \<Rightarrow> 'oid announcements_collection \<Rightarrow> string \<Rightarrow> string announcement list" where
  "get_active_announcements lib coll now =
     map (stringify_id lib) (sort_created_at_desc (filter (active_query now) coll))"

subsection \<open>GET /announcements/all\<close>

definition get_all_announcements ::
  "'oid library \<Rightarrow> 't teachers_collection \<Rightarrow> 'oid announcements_collection \<Rightarrow>
   string option \<Rightarrow> py_exception + string announcement list" where
  "get_all_announcements lib teachers coll teacher_username =
     (case check_teacher_authentication teachers teacher_username of
        Inl e \<Rightarrow> Inl e
      | Inr u \<Rightarrow> Inr (map (stringify_id lib) (sort_created_at_desc coll)))"

subsection \<open>POST /announcements\<close>

text \<open>
  \<open>now\<close> is \<^verbatim>\<open>datetime.now().isoformat()\<close> and \<open>inserted_id\<close> the identifier
  the store gives the new document. \<open>msg\<close>, \<open>end_d\<close> and \<open>start_d\<close> are the
  parameters \<^verbatim>\<open>message\<close>, \<^verbatim>\<open>end_date\<close> and \<^verbatim>\<open>start_date\<close>. The result is
  the response and the collection afterwards.
\<close>

definition create_announcement ::
  "'oid library \<Rightarrow> 't teachers_collection \<Rightarrow> 'oid announcements_collection \<Rightarrow>
   string \<Rightarrow> 'oid \<Rightarrow> string \<Rightarrow> string \<Rightarrow> string option \<Rightarrow> string option \<Rightarrow>
   (py_exception + string announcement) \<times> 'oid announcements_collection" where
  "create_announcement lib teachers coll now inserted_id msg end_d start_d teacher_username =
     (case check_teacher_authentication teachers teacher_username of
        Inl e \<Rightarrow> (Inl e, coll)
      | Inr u \<Rightarrow>
         (let invalid = HTTPException 400
                ''Invalid date format. Use ISO format (YYYY-MM-DDTHH:MM:SS)'';
              announcement =
                \<lparr>doc_id = inserted_id, message = msg, start_date = start_d,
                 end_date = end_d, created_by = u, created_at = now\<rparr>;
              created = (Inr (stringify_id lib announcement), coll @ [announcement])
          in case fromisoformat lib (replace_Z end_d) of
               None \<Rightarrow> (Inl invalid, coll)
             | Some end_dt \<Rightarrow>
                (case start_d of
                   None \<Rightarrow> created
                 | Some s \<Rightarrow>
                    if s = [] then created
                    else (case fromisoformat lib (replace_Z s) of
                            None \<Rightarrow> (Inl invalid, coll)
                          | Some start_dt \<Rightarrow>
                             (case dt_ge start_dt end_dt of
                                None \<Rightarrow> (Inl TypeError, coll)
                              | Some True \<Rightarrow>
                                 (Inl (HTTPException 400 ''Start date must be before end date''),
                                  coll)
                              | Some False \<Rightarrow> created)))))"

subsection \<open>PUT /announcements/{announcement_id}\<close>

text \<open>
  The update dict, built from the parameters that are not \<^verbatim>\<open>None\<close>: a supplied
  \<^verbatim>\<open>end_date\<close> must parse, a supplied \<^verbatim>\<open>start_date\<close> is cleared by the empty
  string and must parse otherwise.
\<close>

definition build_update_fields ::
  "'oid library \<Rightarrow> string option \<Rightarrow> string option \<Rightarrow> string option \<Rightarrow>
   py_exception + update_fields" where
  "build_update_fields lib msg end_d start_d =
     (case (case end_d of
              None \<Rightarrow> Inr None
            | Some e \<Rightarrow>
               (case fromisoformat lib (replace_Z e) of
                  None \<Rightarrow> Inl (HTTPException 400 ''Invalid end_date format. Use ISO format'')
                | Some dt \<Rightarrow> Inr (Some e))) of
        Inl ex \<Rightarrow> Inl ex
      | Inr new_end \<Rightarrow>
         (case (case start_d of
                  None \<Rightarrow> Inr None
                | Some s \<Rightarrow>
                   if s = [] then Inr (Some None)
                   else (case fromisoformat lib (replace_Z s) of
                           None \<Rightarrow>
                             Inl (HTTPException 400 ''Invalid start_date format. Use ISO format'')
                         | Some dt \<Rightarrow> Inr (Some (Some s)))) of
            Inl ex \<Rightarrow> Inl ex
          | Inr new_start \<Rightarrow>
             Inr \<lparr>set_message = msg, set_end_date = new_end, set_start_date = new_start\<rparr>))"

text \<open>
  \<^verbatim>\<open>final_start = update_fields.get("start_date", announcement.get("start_date"))\<close>
  and the same for \<^verbatim>\<open>end_date\<close>.
\<close>

definition final_start :: "update_fields \<Rightarrow> 'oid announcement \<Rightarrow> string option" where
  "final_start uf a = (case set_start_date uf of None \<Rightarrow> start_date a | Some s \<Rightarrow> s)"

definition final_end :: "update_fields \<Rightarrow> 'oid announcement \<Rightarrow> string" where
  "final_end uf a = (case set_end_date uf of None \<Rightarrow> end_date a | Some e \<Rightarrow> e)"

text \<open>
  The check of the date logic: skipped when a final value is \<^verbatim>\<open>None\<close> or empty,
  and (\<^verbatim>\<open>except ValueError: pass\<close>) when a final value does not parse.
\<close>

definition validate_date_logic ::
  "'oid library \<Rightarrow> string option \<Rightarrow> string \<Rightarrow> py_exception option" where
  "validate_date_logic lib fs fe =
     (case fs of
        None \<Rightarrow> None
      | Some s \<Rightarrow>
         if s = [] \<or> fe = [] then None
         else (case fromisoformat lib (replace_Z s) of
                 None \<Rightarrow> None
               | Some start_dt \<Rightarrow>
                  (case fromisoformat lib (replace_Z fe) of
                     None \<Rightarrow> None
                   | Some end_dt \<Rightarrow>
                      (case dt_ge start_dt end_dt of
                         None \<Rightarrow> Some TypeError
                       | Some True \<Rightarrow>
                          Some (HTTPException 400 ''Start date must be before end date'')
                       | Some False \<Rightarrow> None))))"

text \<open>\<^verbatim>\<open>if update_fields:\<close> a dict is true when it has a key.\<close>

definition nonempty_fields :: "update_fields \<Rightarrow> bool" where
  "nonempty_fields uf =
     (set_message uf \<noteq> None \<or> set_end_date uf \<noteq> None \<or> set_start_date uf \<noteq> None)"

definition update_announcement ::
  "'oid library \<Rightarrow> 't teachers_collection \<Rightarrow> 'oid announcements_collection \<Rightarrow>
   string \<Rightarrow> string option \<Rightarrow> string option \<Rightarrow> string option \<Rightarrow> string option \<Rightarrow>
   (py_exception + string announcement) \<times> 'oid announcements_collection" where
  "update_announcement lib teachers coll announcement_id msg end_d start_d teacher_username =
     (case check_teacher_authentication teachers teacher_username of
        Inl e \<Rightarrow> (Inl e, coll)
      | Inr u \<Rightarrow>
         (case ObjectId lib announcement_id of
            None \<Rightarrow> (Inl (HTTPException 400 ''Invalid announcement ID''), coll)
          | Some oid \<Rightarrow>
             (case find_one oid coll of
                None \<Rightarrow> (Inl (HTTPException 404 ''Announcement not found''), coll)
              | Some announcement \<Rightarrow>
                 (case build_update_fields lib msg end_d start_d of
                    Inl e \<Rightarrow> (Inl e, coll)
                  | Inr uf \<Rightarrow>
                     (case validate_date_logic lib (final_start uf announcement)
                             (final_end uf announcement) of
                        Some e \<Rightarrow> (Inl e, coll)
                      | None \<Rightarrow>
                         (let coll' = (if nonempty_fields uf then update_one oid uf coll
                                       else coll)
                          in case find_one oid coll' of
                               None \<Rightarrow> (Inl TypeError, coll')
                             | Some updated \<Rightarrow> (Inr (stringify_id lib updated), coll')))))))"

subsection \<open>DELETE /announcements/{announcement_id}\<close>

definition delete_announcement ::
  "'oid library \<Rightarrow> 't teachers_collection \<Rightarrow> 'oid announcements_collection \<Rightarrow>
   string \<Rightarrow> string option \<Rightarrow> (py_exception + string) \<times> 'oid announcements_collection" where
  "delete_announcement lib teachers coll announcement_id teacher_username =
     (case check_teacher_authentication teachers teacher_username of
        Inl e \<Rightarrow> (Inl e, coll)
      | Inr u \<Rightarrow>
         (case ObjectId lib announcement_id of
            None \<Rightarrow> (Inl (HTTPException 400 ''Invalid announcement ID''), coll)
          | Some oid \<Rightarrow>
             (case delete_one oid coll of
                (deleted_count, coll') \<Rightarrow>
                  if deleted_count = 0
                  then (Inl (HTTPException 404 ''Announcement not found''), coll')
                  else (Inr ''Announcement deleted successfully'', coll'))))"

subsection \<open>Reading responses and teacher documents\<close>

text \<open>A response is Unauthorized when the handler raised with status 401.\<close>

definition unauthorized :: "py_exception + 'a \<Rightarrow> bool" where
  "unauthorized r = (case r of Inl e \<Rightarrow> status_code e = 401 | Inr x \<Rightarrow> False)"

text \<open>
  The teachers collection with the content of every document erased (password, display
  name, role): only the usernames are left.
\<close>

definition forget_documents :: "'t teachers_collection \<Rightarrow> unit teachers_collection" where
  "forget_documents teachers = (\<lambda>u. map_option (\<lambda>t. ()) (teachers u))"

subsection \<open>An instance of the library parameters\<close>

text \<open>
  The theorems below hold for every \<open>library\<close>. To run the handlers on concrete
  requests, this instance reads the timestamps of the shape
  \<^verbatim>\<open>YYYY-MM-DDTHH:MM:SS\<close>, alone (naive) or followed by an offset
  \<^verbatim>\<open>+HH:MM\<close> or \<^verbatim>\<open>-HH:MM\<close> (aware), as Python reads them, and rejects every
  other string. Python reads more shapes (a date alone, fractions of a second, other
  separators); the examples below use none of them, and no theorem about every
  \<open>library\<close> depends on this instance. Identifiers are read as \<^verbatim>\<open>bson\<close> reads
  them.
\<close>

definition digit :: "char \<Rightarrow> int option" where
  "digit c =
     (let n = (of_char c :: nat) in if 48 \<le> n \<and> n \<le> 57 then Some (int n - 48) else None)"

fun digits :: "int \<Rightarrow> string \<Rightarrow> int option" where
  "digits acc [] = Some acc"
| "digits acc (c # cs) =
     (case digit c of None \<Rightarrow> None | Some d \<Rightarrow> digits (10 * acc + d) cs)"

definition field :: "nat \<Rightarrow> nat \<Rightarrow> string \<Rightarrow> int option" where
  "field pos len s = digits 0 (take len (drop pos s))"

definition is_leap :: "int \<Rightarrow> bool" where
  "is_leap y = (y mod 4 = 0 \<and> (y mod 100 \<noteq> 0 \<or> y mod 400 = 0))"

definition days_in_month :: "int \<Rightarrow> int \<Rightarrow> int" where
  "days_in_month y m =
     (if m = 2 then (if is_leap y then 29 else 28)
      else if m = 4 \<or> m = 6 \<or> m = 9 \<or> m = 11 then 30 else 31)"

text \<open>Days from 1970-01-01 to the given day of the proleptic Gregorian calendar.\<close>

definition days_from_civil :: "int \<Rightarrow> int \<Rightarrow> int \<Rightarrow> int" where
  "days_from_civil y m d =
     (let y' = (if m \<le> 2 then y - 1 else y);
          era = y' div 400;
          yoe = y' - era * 400;
          doy = (153 * (if m > 2 then m - 3 else m + 9) + 2) div 5 + d - 1;
          doe = yoe * 365 + yoe div 4 - yoe div 100 + doy
      in era * 146097 + doe - 719468)"

definition fromisoformat_seconds :: "string \<Rightarrow> datetime option" where
  "fromisoformat_seconds s =
     (if (length s = 19 \<or> length s = 25) \<and> s ! 4 = CHR ''-'' \<and> s ! 7 = CHR ''-'' \<and>
         s ! 10 = CHR ''T'' \<and> s ! 13 = CHR '':'' \<and> s ! 16 = CHR '':''
      then
        (case (field 0 4 s, field 5 2 s, field 8 2 s, field 11 2 s, field 14 2 s, field 17 2 s) of
           (Some y, Some m, Some d, Some hh, Some mm, Some ss) \<Rightarrow>
             if 1 \<le> y \<and> 1 \<le> m \<and> m \<le> 12 \<and> 1 \<le> d \<and> d \<le> days_in_month y m \<and>
                hh < 24 \<and> mm < 60 \<and> ss < 60
             then
               (let local = (days_from_civil y m d * 86400 + hh * 3600 + mm * 60 + ss) * 1000000
                in if length s = 19 then Some (Naive local)
                   else if (s ! 19 = CHR ''+'' \<or> s ! 19 = CHR ''-'') \<and> s ! 22 = CHR '':''
                   then
                     (case (field 20 2 s, field 23 2 s) of
                        (Some oh, Some om) \<Rightarrow>
                          if oh < 24 \<and> om < 60
                          then
                            (let offset = (oh * 3600 + om * 60) * 1000000
                             in Some (Aware (if s ! 19 = CHR ''+'' then local - offset
                                             else local + offset)))
                          else None
                      | _ \<Rightarrow> None)
                   else None)
             else None
         | _ \<Rightarrow> None)
      else None)"

definition hex_lower :: "char \<Rightarrow> char option" where
  "hex_lower c =
     (let n = (of_char c :: nat)
      in if (48 \<le> n \<and> n \<le> 57) \<or> (97 \<le> n \<and> n \<le> 102) then Some c
         else if 65 \<le> n \<and> n \<le> 70 then Some (char_of (n + 32))
         else None)"

definition is_space :: "char \<Rightarrow> bool" where
  "is_space c = (let n = (of_char c :: nat) in n = 32 \<or> (9 \<le> n \<and> n \<le> 13))"

text \<open>
  \<^verbatim>\<open>bytes.fromhex\<close>: pairs of hexadecimal digits, with white space allowed between
  the pairs; the bytes are kept as their digits in lower case, which is what
  \<^verbatim>\<open>str\<close> of an identifier prints.
\<close>

fun fromhex :: "string \<Rightarrow> string option" where
  "fromhex [] = Some []"
| "fromhex [c] = (if is_space c then Some [] else None)"
| "fromhex (c # d # cs) =
     (if is_space c then fromhex (d # cs)
      else (case (hex_lower c, hex_lower d) of
              (Some h, Some l) \<Rightarrow> map_option (\<lambda>rest. h # l # rest) (fromhex cs)
            | _ \<Rightarrow> None))"

text \<open>
  \<^verbatim>\<open>ObjectId(s)\<close> for a string: its length must be 24 and
  \<^verbatim>\<open>bytes.fromhex\<close> must read it.
\<close>

definition ObjectId_hex :: "string \<Rightarrow> string option" where
  "ObjectId_hex s = (if length s = 24 then fromhex s else None)"

definition python :: "string library" where
  "python = \<lparr>fromisoformat = fromisoformat_seconds, ObjectId = ObjectId_hex, str = (\<lambda>oid. oid)\<rparr>"

text \<open>A teachers collection with one teacher and an announcements collection of three.\<close>

definition teachers_example :: "string teachers_collection" where
  "teachers_example = [''mrodriguez'' \<mapsto> ''password-hash'']"

definition announcement1 :: "string announcement" where
  "announcement1 =
     \<lparr>doc_id = ''65a000000000000000000001'', message = ''Exams start soon'',
      start_date = Some ''2025-01-01T00:00:00'', end_date = ''2025-06-30T00:00:00'',
      created_by = ''mrodriguez'', created_at = ''2024-12-20T09:00:00.000000''\<rparr>"

definition announcement2 :: "string announcement" where
  "announcement2 =
     \<lparr>doc_id = ''65a000000000000000000002'', message = ''Welcome back'',
      start_date = None, end_date = ''2026-06-30T00:00:00'',
      created_by = ''mrodriguez'', created_at = ''2025-01-05T09:00:00.000000''\<rparr>"

definition announcement3 :: "string announcement" where
  "announcement3 =
     \<lparr>doc_id = ''65a000000000000000000003'', message = ''Summer fair'',
      start_date = Some ''2025-07-01T00:00:00'', end_date = ''2025-07-31T00:00:00'',
      created_by = ''mrodriguez'', created_at = ''2025-01-03T09:00:00.000000''\<rparr>"

definition announcements_example :: "string announcements_collection" where
  "announcements_example = [announcement1, announcement2, announcement3]"

section \<open>Properties\<close>

subsection \<open>Library functions and the collection\<close>

lemma replace_Z_Nil: "replace_Z [] = []"
  by (simp add: replace_Z_def)

lemma replace_Z_Z_suffix: "replace_Z (stem @ ''Z'') = replace_Z stem @ ''+00:00''"
  by (simp add: replace_Z_def)

lemma find_one_None_iff: "find_one oid coll = None \<longleftrightarrow> (\<forall>a\<in>set coll. doc_id a \<noteq> oid)"
  by (auto simp: find_one_def find_None_iff)

lemma delete_one_absent: "\<forall>a\<in>set coll. doc_id a \<noteq> oid \<Longrightarrow> delete_one oid coll = (0, coll)"
  by (induction coll) auto

lemma find_one_update_one:
  "find_one oid coll = Some a \<Longrightarrow> find_one oid (update_one oid uf coll) = Some (set_fields uf a)"
  by (induction coll) (auto simp: find_one_def set_fields_def)

text \<open>An update rewrites one position of the collection: that of the first match.\<close>

lemma update_one_list_update:
  "find_one oid coll = Some a \<Longrightarrow>
     \<exists>k<length coll. coll ! k = a \<and> update_one oid uf coll = coll[k := set_fields uf a]"
proof (induction coll)
  case Nil
  then show ?case by (simp add: find_one_def)
next
  case (Cons b coll)
  show ?case
  proof (cases "doc_id b = oid")
    case True
    with Cons.prems have "b = a" by (simp add: find_one_def)
    with True show ?thesis by (intro exI[of _ 0]) simp
  next
    case False
    with Cons.prems have "find_one oid coll = Some a" by (simp add: find_one_def)
    from Cons.IH[OF this] obtain k where
      "k < length coll" "coll ! k = a" "update_one oid uf coll = coll[k := set_fields uf a]"
      by blast
    with False show ?thesis by (intro exI[of _ "Suc k"]) simp
  qed
qed

lemma set_fields_empty: "\<not> nonempty_fields uf \<Longrightarrow> set_fields uf a = a"
  by (simp add: nonempty_fields_def set_fields_def)

lemma set_get_active_announcements:
  "set (get_active_announcements lib coll now) =
     stringify_id lib ` {a \<in> set coll. active_query now a}"
  by (simp add: get_active_announcements_def sort_created_at_desc_def)

lemma sort_created_at_desc_sorted:
  "sorted_wrt (\<lambda>a b. created_at b \<le> created_at a)
     (map (stringify_id lib) (sort_created_at_desc coll))"
proof -
  have "sorted (map created_at (sort_key created_at coll))" by simp
  then have "sorted_wrt (\<lambda>a b. created_at a \<le> created_at b) (sort_key created_at coll)"
    by (simp add: sorted_wrt_map)
  then have "sorted_wrt (\<lambda>a b. created_at b \<le> created_at a) (rev (sort_key created_at coll))"
    by (simp add: sorted_wrt_rev)
  then show ?thesis
    by (simp add: sorted_wrt_map sort_created_at_desc_def stringify_id_def)
qed

subsection \<open>The authentication check\<close>

lemma check_forget_documents:
  "check_teacher_authentication (forget_documents teachers) teacher_username =
   check_teacher_authentication teachers teacher_username"
  by (simp add: check_teacher_authentication_def forget_documents_def split: option.splits)

lemma check_Inl_iff:
  "(\<exists>e. check_teacher_authentication teachers teacher_username = Inl e) \<longleftrightarrow>
   (teacher_username = None \<or> teacher_username = Some [] \<or>
    (\<exists>u. teacher_username = Some u \<and> teachers u = None))"
  by (auto simp: check_teacher_authentication_def split: option.splits)

lemma check_Inl_401:
  "check_teacher_authentication teachers teacher_username = Inl e \<Longrightarrow> status_code e = 401"
  by (auto simp: check_teacher_authentication_def split: option.splits if_splits)

lemma check_Inr:
  "check_teacher_authentication teachers teacher_username = Inr u \<longleftrightarrow>
   (teacher_username = Some u \<and> u \<noteq> [] \<and> teachers u \<noteq> None)"
  by (auto simp: check_teacher_authentication_def split: option.splits if_splits)

subsection \<open>The steps of an update\<close>

lemma build_update_fields_Inl:
  "build_update_fields lib msg end_d start_d = Inl e \<Longrightarrow> \<exists>d. e = HTTPException 400 d"
  by (auto simp: build_update_fields_def split: option.splits if_splits sum.splits)

lemma build_update_fields_Inr:
  "build_update_fields lib msg end_d start_d = Inr uf \<Longrightarrow>
     set_message uf = msg \<and> set_end_date uf = end_d \<and>
     set_start_date uf =
       (case start_d of None \<Rightarrow> None | Some s \<Rightarrow> Some (if s = [] then None else Some s))"
  by (auto simp: build_update_fields_def split: option.splits if_splits)

lemma validate_date_logic_Some:
  "validate_date_logic lib fs fe = Some e \<Longrightarrow>
     e = HTTPException 400 ''Start date must be before end date'' \<or> e = TypeError"
  by (auto simp: validate_date_logic_def split: option.splits if_splits bool.splits)

text \<open>
  The comparison of a naive with an aware timestamp is the one exception no handler
  catches: both values parse, and the request ends in a \<^verbatim>\<open>TypeError\<close>.
\<close>

lemma validate_date_logic_mixed:
  "fromisoformat lib (replace_Z s) = Some (Naive x) \<Longrightarrow>
   fromisoformat lib (replace_Z e) = Some (Aware y) \<Longrightarrow> s \<noteq> [] \<Longrightarrow> e \<noteq> [] \<Longrightarrow>
   validate_date_logic lib (Some s) e = Some TypeError"
  by (simp add: validate_date_logic_def)

lemma unauthorized_get_all:
  "unauthorized (get_all_announcements lib teachers coll teacher_username) \<longleftrightarrow>
   (teacher_username = None \<or> teacher_username = Some [] \<or>
    (\<exists>u. teacher_username = Some u \<and> teachers u = None))"
  unfolding check_Inl_iff[symmetric]
  by (auto simp: unauthorized_def get_all_announcements_def check_Inl_401 split: sum.splits)

lemma unauthorized_create:
  "unauthorized (fst (create_announcement lib teachers coll now inserted_id msg end_d start_d
      teacher_username)) \<longleftrightarrow>
   (teacher_username = None \<or> teacher_username = Some [] \<or>
    (\<exists>u. teacher_username = Some u \<and> teachers u = None))"
  unfolding check_Inl_iff[symmetric]
  by (auto simp: unauthorized_def create_announcement_def check_Inl_401 Let_def
      split: sum.splits option.splits bool.splits)

lemma unauthorized_update:
  "unauthorized (fst (update_announcement lib teachers coll announcement_id msg end_d start_d
      teacher_username)) \<longleftrightarrow>
   (teacher_username = None \<or> teacher_username = Some [] \<or>
    (\<exists>u. teacher_username = Some u \<and> teachers u = None))"
  unfolding check_Inl_iff[symmetric]
  by (auto simp: unauthorized_def update_announcement_def check_Inl_401 Let_def
      dest!: build_update_fields_Inl validate_date_logic_Some split: sum.splits option.splits)

lemma unauthorized_delete:
  "unauthorized (fst (delete_announcement lib teachers coll announcement_id teacher_username))
   \<longleftrightarrow>
   (teacher_username = None \<or> teacher_username = Some [] \<or>
    (\<exists>u. teacher_username = Some u \<and> teachers u = None))"
  unfolding check_Inl_iff[symmetric]
  by (auto simp: unauthorized_def delete_announcement_def check_Inl_401 Let_def
      split: sum.splits option.splits prod.splits)

subsection \<open>The example collections and timestamps\<close>

lemma teachers_example_mrodriguez: "teachers_example ''mrodriguez'' = Some ''password-hash''"
  by (simp add: teachers_example_def)

lemma teachers_example_ghost: "teachers_example ''ghost_teacher'' = None"
  by (simp add: teachers_example_def)

lemma python_rejects_empty: "fromisoformat python [] = None"
  by (simp add: python_def fromisoformat_seconds_def)

lemma python_2024_12_31:
  "fromisoformat python (replace_Z ''2024-12-31T00:00:00'') = Some (Naive 1735603200000000)"
  by code_simp

lemma python_2025_01_01:
  "fromisoformat python (replace_Z ''2025-01-01T00:00:00'') = Some (Naive 1735689600000000)"
  by code_simp

lemma python_2025_01_02:
  "fromisoformat python (replace_Z ''2025-01-02T00:00:00'') = Some (Naive 1735776000000000)"
  by code_simp

lemma python_2024_01_01_utc:
  "fromisoformat python (replace_Z ''2024-01-01T00:00:00Z'') = Some (Aware 1704067200000000)"
  by code_simp

lemma python_without_replace_Z: "fromisoformat python ''2030-01-01T00:00:00Z'' = None"
  by code_simp

lemma python_2030_13_01_utc:
  "fromisoformat python (replace_Z ''2030-13-01T00:00:00'' @ ''+00:00'') = None"
  by code_simp

lemma python_2030_01_01_utc:
  "fromisoformat python (replace_Z ''2030-01-01T00:00:00'' @ ''+00:00'') =
     Some (Aware 1893456000000000)"
  by code_simp

lemma find_one_announcement1:
  "find_one ''65a000000000000000000001'' announcements_example = Some announcement1"
  by code_simp

subsection \<open>Date ranges the handlers refuse\<close>

text \<open>
  Where the comparison \<^verbatim>\<open>start_dt >= end_dt\<close> has a value, create and update answer
  as their date checks are written. The parser is only assumed to reject the empty string.
\<close>

lemma create_announcement_invalid_dates:
  assumes "teacher_username = Some u" and "u \<noteq> []" and "teachers u = Some t"
    and "fromisoformat lib [] = None"
    and "fromisoformat lib (replace_Z end_d) = None \<or>
         (\<exists>s start_dt end_dt. start_d = Some s \<and>
            fromisoformat lib (replace_Z s) = Some start_dt \<and>
            fromisoformat lib (replace_Z end_d) = Some end_dt \<and>
            dt_ge start_dt end_dt = Some True)"
  shows "\<exists>detail.
     create_announcement lib teachers coll now inserted_id msg end_d start_d teacher_username =
       (Inl (HTTPException 400 detail), coll)"
proof -
  have auth: "check_teacher_authentication teachers teacher_username = Inr u"
    using assms(1-3) by (simp add: check_Inr)
  from assms(4,5) show ?thesis
    by (auto simp: create_announcement_def auth Let_def replace_Z_Nil)
qed

lemma create_announcement_invalid_dates_example:
  "create_announcement python teachers_example announcements_example
     ''2025-03-01T12:00:00.000000'' ''65a000000000000000000004'' ''M''
     ''2025-01-01T00:00:00'' (Some ''2025-01-02T00:00:00'') (Some ''mrodriguez'') =
     (Inl (HTTPException 400 ''Start date must be before end date''), announcements_example)"
  by code_simp

lemma update_announcement_start_not_before_end:
  assumes "teacher_username = Some u" and "u \<noteq> []" and "teachers u = Some t"
    and "ObjectId lib announcement_id = Some oid" and "find_one oid coll = Some a"
    and "fromisoformat lib [] = None"
    and "(case start_d of None \<Rightarrow> start_date a
          | Some s \<Rightarrow> if s = [] then None else Some s) = Some fs"
    and "(case end_d of None \<Rightarrow> end_date a | Some e \<Rightarrow> e) = fe"
    and "fromisoformat lib (replace_Z fs) = Some start_dt"
    and "fromisoformat lib (replace_Z fe) = Some end_dt"
    and "dt_ge start_dt end_dt = Some True"
  shows
    "update_announcement lib teachers coll announcement_id msg end_d start_d teacher_username =
       (Inl (HTTPException 400 ''Start date must be before end date''), coll)"
proof -
  have auth: "check_teacher_authentication teachers teacher_username = Inr u"
    using assms(1-3) by (simp add: check_Inr)
  have ne: "fs \<noteq> []" "fe \<noteq> []"
    using assms(6,9,10) by (auto simp: replace_Z_Nil)
  obtain uf where uf: "build_update_fields lib msg end_d start_d = Inr uf"
    and fin: "final_start uf a = Some fs" "final_end uf a = fe"
    using assms(7-10)
    by (auto simp: build_update_fields_def final_start_def final_end_def
        split: option.splits if_splits)
  have "validate_date_logic lib (Some fs) fe =
          Some (HTTPException 400 ''Start date must be before end date'')"
    using ne assms(9-11) by (simp add: validate_date_logic_def)
  then show ?thesis
    using assms(4,5) uf fin by (simp add: update_announcement_def auth)
qed

lemma update_announcement_start_not_before_end_example:
  "update_announcement python teachers_example announcements_example
     ''65a000000000000000000001'' None (Some ''2024-12-31T00:00:00'') None (Some ''mrodriguez'') =
     (Inl (HTTPException 400 ''Start date must be before end date''), announcements_example)"
  by code_simp

section \<open>The claims\<close>

text \<open>
  C1. Each privileged operation (list-all, create, update, delete) answers Unauthorized
  (401) exactly when the requester's username is absent, empty, or the username of no
  teacher document. Nothing else of a teacher document is read: with the content of
  every teacher document erased, each operation gives the same result.
\<close>

theorem privileged_operations_unauthorized_iff:
  "(let refused = (teacher_username = None \<or> teacher_username = Some [] \<or>
                   (\<exists>u. teacher_username = Some u \<and> teachers u = None))
    in unauthorized (get_all_announcements lib teachers coll teacher_username) = refused \<and>
       unauthorized (fst (create_announcement lib teachers coll now inserted_id msg end_d
                            start_d teacher_username)) = refused \<and>
       unauthorized (fst (update_announcement lib teachers coll announcement_id msg' end_d'
                            start_d' teacher_username)) = refused \<and>
       unauthorized (fst (delete_announcement lib teachers coll announcement_id
                            teacher_username)) = refused) \<and>
   get_all_announcements lib (forget_documents teachers) coll teacher_username =
     get_all_announcements lib teachers coll teacher_username \<and>
   create_announcement lib (forget_documents teachers) coll now inserted_id msg end_d start_d
       teacher_username =
     create_announcement lib teachers coll now inserted_id msg end_d start_d teacher_username \<and>
   update_announcement lib (forget_documents teachers) coll announcement_id msg' end_d' start_d'
       teacher_username =
     update_announcement lib teachers coll announcement_id msg' end_d' start_d'
       teacher_username \<and>
   delete_announcement lib (forget_documents teachers) coll announcement_id teacher_username =
     delete_announcement lib teachers coll announcement_id teacher_username"
proof -
  have "get_all_announcements lib (forget_documents teachers) coll teacher_username =
     get_all_announcements lib teachers coll teacher_username"
    by (simp add: get_all_announcements_def check_forget_documents)
  moreover have "create_announcement lib (forget_documents teachers) coll now inserted_id msg
       end_d start_d teacher_username =
     create_announcement lib teachers coll now inserted_id msg end_d start_d teacher_username"
    by (simp add: create_announcement_def check_forget_documents)
  moreover have "update_announcement lib (forget_documents teachers) coll announcement_id msg'
       end_d' start_d' teacher_username =
     update_announcement lib teachers coll announcement_id msg' end_d' start_d'
       teacher_username"
    by (simp add: update_announcement_def check_forget_documents)
  moreover have "delete_announcement lib (forget_documents teachers) coll announcement_id
       teacher_username =
     delete_announcement lib teachers coll announcement_id teacher_username"
    by (simp add: delete_announcement_def check_forget_documents)
  ultimately show ?thesis
    unfolding Let_def
    by (simp only: unauthorized_get_all unauthorized_create unauthorized_update
        unauthorized_delete simp_thms)
qed

text \<open>
  The unknown teacher of the specification is refused by list-all and by delete, and the
  known teacher is not refused by an update.
\<close>

theorem privileged_operations_unauthorized_iff_witness:
  "unauthorized (get_all_announcements python teachers_example announcements_example
      (Some ''ghost_teacher'')) \<and>
   unauthorized (fst (delete_announcement python teachers_example announcements_example
      ''65a000000000000000000001'' (Some ''ghost_teacher''))) \<and>
   \<not> unauthorized (fst (update_announcement python teachers_example announcements_example
      ''65a000000000000000000001'' (Some ''Exams moved'') None None (Some ''mrodriguez'')))"
  using privileged_operations_unauthorized_iff
      [where teacher_username = "Some ''ghost_teacher''" and teachers = teachers_example
         and lib = python and coll = announcements_example
         and announcement_id = "''65a000000000000000000001''"
         and now = "[]" and inserted_id = "[]" and msg = "[]" and end_d = "[]"
         and start_d = None and msg' = None and end_d' = None and start_d' = None]
    privileged_operations_unauthorized_iff
      [where teacher_username = "Some ''mrodriguez''" and teachers = teachers_example
         and lib = python and coll = announcements_example
         and announcement_id = "''65a000000000000000000001''"
         and now = "[]" and inserted_id = "[]" and msg = "[]" and end_d = "[]"
         and start_d = None and msg' = "Some ''Exams moved''" and end_d' = None
         and start_d' = None]
  by (simp add: Let_def teachers_example_ghost teachers_example_mrodriguez)

text \<open>
  C2. For every collection and every current time \<open>now\<close>, list-active returns exactly the
  announcements (each once, with its identifier as a string) whose \<open>end_date\<close> is at
  least \<open>now\<close> in the lexicographic order of strings and whose \<open>start_date\<close> is null or
  at most \<open>now\<close>. In particular no returned announcement has its \<open>end_date\<close> before
  \<open>now\<close> or its \<open>start_date\<close> after \<open>now\<close>, and an announcement with a null
  \<open>start_date\<close> that has not ended is returned.
\<close>

theorem get_active_announcements_exactly_active:
  "mset (get_active_announcements lib coll now) =
     image_mset (stringify_id lib)
       (filter_mset
          (\<lambda>a. now \<le> end_date a \<and>
               (start_date a = None \<or> (\<exists>s. start_date a = Some s \<and> s \<le> now)))
          (mset coll)) \<and>
   (\<forall>r\<in>set (get_active_announcements lib coll now).
       \<not> end_date r < now \<and> (\<forall>s. start_date r = Some s \<longrightarrow> \<not> now < s)) \<and>
   (\<forall>a\<in>set coll. start_date a = None \<and> now \<le> end_date a \<longrightarrow>
       stringify_id lib a \<in> set (get_active_announcements lib coll now))"
proof -
  have q: "active_query now =
     (\<lambda>a. now \<le> end_date a \<and>
          (start_date a = None \<or> (\<exists>s. start_date a = Some s \<and> s \<le> now)))"
    by (auto simp: active_query_def fun_eq_iff split: option.splits)
  have 1: "mset (get_active_announcements lib coll now) =
     image_mset (stringify_id lib) (filter_mset (active_query now) (mset coll))"
    by (simp add: get_active_announcements_def sort_created_at_desc_def)
  have 2: "\<not> end_date r < now \<and> (\<forall>s. start_date r = Some s \<longrightarrow> \<not> now < s)"
    if "r \<in> set (get_active_announcements lib coll now)" for r
  proof -
    from that obtain b where "active_query now b" "r = stringify_id lib b"
      unfolding set_get_active_announcements by blast
    then show ?thesis
      by (auto simp: active_query_def stringify_id_def)
  qed
  have 3: "stringify_id lib a \<in> set (get_active_announcements lib coll now)"
    if "a \<in> set coll" "start_date a = None" "now \<le> end_date a" for a
    using that unfolding set_get_active_announcements by (simp add: active_query_def)
  show ?thesis unfolding 1 q[symmetric] using 2 3 by blast
qed

text \<open>
  On 1 March 2025 the first two example announcements are active; the third has not
  started.
\<close>

theorem get_active_announcements_exactly_active_witness:
  "mset (get_active_announcements python announcements_example ''2025-03-01T12:00:00.000000'') =
     {#announcement1, announcement2#} \<and>
   announcement2 \<in>
     set (get_active_announcements python announcements_example ''2025-03-01T12:00:00.000000'')"
proof -
  let ?now = "''2025-03-01T12:00:00.000000''"
  note inst = get_active_announcements_exactly_active
    [where lib = python and coll = announcements_example and now = ?now]
  have s: "stringify_id python announcement1 = announcement1"
    "stringify_id python announcement2 = announcement2"
    by (simp_all add: stringify_id_def python_def announcement1_def announcement2_def)
  have "mset (get_active_announcements python announcements_example ?now) =
     {#announcement1, announcement2#}"
    unfolding inst[THEN conjunct1]
    by (simp add: announcements_example_def announcement1_def announcement2_def
        announcement3_def stringify_id_def python_def)
  moreover have "announcement2 \<in> set announcements_example"
    "start_date announcement2 = None \<and> ?now \<le> end_date announcement2"
    by (simp_all add: announcements_example_def announcement2_def)
  with inst[THEN conjunct2, THEN conjunct2] s(2)
  have "announcement2 \<in> set (get_active_announcements python announcements_example ?now)"
    by fastforce
  ultimately show ?thesis by simp
qed

text \<open>
  C9. list-active returns the active announcements of the collection, and list-all, for an
  authorized requester, every announcement of the collection, each ordered by
  \<open>created_at\<close> descending.
\<close>

theorem listings_ordered_by_created_at_descending:
  "sorted_wrt (\<lambda>a b. created_at b \<le> created_at a) (get_active_announcements lib coll now) \<and>
   mset (get_active_announcements lib coll now) =
     image_mset (stringify_id lib)
       (filter_mset
          (\<lambda>a. now \<le> end_date a \<and>
               (start_date a = None \<or> (\<exists>s. start_date a = Some s \<and> s \<le> now)))
          (mset coll)) \<and>
   (teacher_username = Some u \<and> u \<noteq> [] \<and> teachers u \<noteq> None \<longrightarrow>
      (\<exists>rs. get_all_announcements lib teachers coll teacher_username = Inr rs \<and>
            sorted_wrt (\<lambda>a b. created_at b \<le> created_at a) rs \<and>
            mset rs = image_mset (stringify_id lib) (mset coll)))"
proof -
  have q: "active_query now =
     (\<lambda>a. now \<le> end_date a \<and>
          (start_date a = None \<or> (\<exists>s. start_date a = Some s \<and> s \<le> now)))"
    by (auto simp: active_query_def fun_eq_iff split: option.splits)
  have 1: "sorted_wrt (\<lambda>a b. created_at b \<le> created_at a)
      (get_active_announcements lib coll now)"
    using sort_created_at_desc_sorted by (simp add: get_active_announcements_def)
  have 2: "mset (get_active_announcements lib coll now) =
     image_mset (stringify_id lib) (filter_mset (active_query now) (mset coll))"
    by (simp add: get_active_announcements_def sort_created_at_desc_def)
  have 3: "\<exists>rs. get_all_announcements lib teachers coll teacher_username = Inr rs \<and>
            sorted_wrt (\<lambda>a b. created_at b \<le> created_at a) rs \<and>
            mset rs = image_mset (stringify_id lib) (mset coll)"
    if "teacher_username = Some u" "u \<noteq> []" "teachers u \<noteq> None"
  proof -
    have "check_teacher_authentication teachers teacher_username = Inr u"
      using that by (simp add: check_Inr)
    then have "get_all_announcements lib teachers coll teacher_username =
        Inr (map (stringify_id lib) (sort_created_at_desc coll))"
      by (simp add: get_all_announcements_def)
    moreover have "mset (map (stringify_id lib) (sort_created_at_desc coll)) =
        image_mset (stringify_id lib) (mset coll)"
      by (simp add: sort_created_at_desc_def)
    ultimately show ?thesis using sort_created_at_desc_sorted by blast
  qed
  show ?thesis unfolding q[symmetric] using 1 2 3 by blast
qed

text \<open>
  On 1 March 2025 list-active returns the second and then the first example announcement,
  and list-all, for the known teacher, the second, the third and the first: the newest
  first.
\<close>

theorem listings_ordered_by_created_at_descending_witness:
  "get_active_announcements python announcements_example ''2025-03-01T12:00:00.000000'' =
     [announcement2, announcement1] \<and>
   sorted_wrt (\<lambda>a b. created_at b \<le> created_at a) [announcement2, announcement1] \<and>
   created_at announcement1 < created_at announcement2 \<and>
   get_all_announcements python teachers_example announcements_example (Some ''mrodriguez'') =
     Inr [announcement2, announcement3, announcement1] \<and>
   sorted_wrt (\<lambda>a b. created_at b \<le> created_at a) [announcement2, announcement3, announcement1]"
proof -
  have active: "get_active_announcements python announcements_example
      ''2025-03-01T12:00:00.000000'' = [announcement2, announcement1]"
    by code_simp
  have all: "get_all_announcements python teachers_example announcements_example
      (Some ''mrodriguez'') = Inr [announcement2, announcement3, announcement1]"
    by code_simp
  have newer: "created_at announcement1 < created_at announcement2"
    by (simp add: announcement1_def announcement2_def)
  have auth: "Some ''mrodriguez'' = Some ''mrodriguez'' \<and> ''mrodriguez'' \<noteq> [] \<and>
      teachers_example ''mrodriguez'' \<noteq> None"
    by (simp add: teachers_example_mrodriguez)
  note inst = listings_ordered_by_created_at_descending
    [where lib = python and coll = announcements_example and teachers = teachers_example
       and teacher_username = "Some ''mrodriguez''" and u = "''mrodriguez''"
       and now = "''2025-03-01T12:00:00.000000''"]
  from inst auth have
    "sorted_wrt (\<lambda>a b. created_at b \<le> created_at a)
       (get_active_announcements python announcements_example ''2025-03-01T12:00:00.000000'')"
    "\<exists>rs. get_all_announcements python teachers_example announcements_example
         (Some ''mrodriguez'') = Inr rs \<and> sorted_wrt (\<lambda>a b. created_at b \<le> created_at a) rs"
    by blast+
  with active all newer show ?thesis by simp
qed

text \<open>
  C3. For an authorized teacher, create is to fail with InvalidArgument (400) when the
  \<open>start_date\<close> is supplied, parses and is not before the \<open>end_date\<close>. It does so
  where Python can order the two times. When one of them parses to a naive time and the
  other to an aware one, \<^verbatim>\<open>start_dt >= end_dt\<close> raises \<^verbatim>\<open>TypeError\<close>, which
  the handler (catching \<^verbatim>\<open>ValueError\<close> alone) lets through: the request is answered
  500, whatever the two times are. Nothing is persisted.
\<close>

theorem create_announcement_naive_against_aware:
  assumes "teacher_username = Some u" and "u \<noteq> []" and "teachers u = Some t"
    and "start_d = Some s" and "s \<noteq> []"
    and "fromisoformat lib (replace_Z s) = Some start_dt"
    and "fromisoformat lib (replace_Z end_d) = Some end_dt"
    and "(\<exists>x y. start_dt = Naive x \<and> end_dt = Aware y) \<or>
         (\<exists>x y. start_dt = Aware x \<and> end_dt = Naive y)"
  shows
    "create_announcement lib teachers coll now inserted_id msg end_d start_d teacher_username =
       (Inl TypeError, coll) \<and>
     status_code TypeError = 500"
proof -
  have auth: "check_teacher_authentication teachers teacher_username = Inr u"
    using assms(1-3) by (simp add: check_Inr)
  from assms(8) have "dt_ge start_dt end_dt = None" by auto
  with assms(4-7) show ?thesis
    by (simp add: create_announcement_def auth Let_def)
qed

text \<open>
  A start on 1 January 2025 (no offset) against an end on 1 January 2024 (UTC): both
  parse, the start is a year after the end, and the answer is not 400.
\<close>

theorem create_announcement_naive_against_aware_witness:
  "fromisoformat python (replace_Z ''2025-01-01T00:00:00'') = Some (Naive 1735689600000000) \<and>
   fromisoformat python (replace_Z ''2024-01-01T00:00:00Z'') = Some (Aware 1704067200000000) \<and>
   create_announcement python teachers_example announcements_example
     ''2025-03-01T12:00:00.000000'' ''65a000000000000000000004'' ''M''
     ''2024-01-01T00:00:00Z'' (Some ''2025-01-01T00:00:00'') (Some ''mrodriguez'') =
     (Inl TypeError, announcements_example)"
proof -
  have mixed: "(\<exists>x y. Naive 1735689600000000 = Naive x \<and> Aware 1704067200000000 = Aware y) \<or>
         (\<exists>x y. Naive 1735689600000000 = Aware x \<and> Aware 1704067200000000 = Naive y)"
    by simp
  have auth: "Some ''mrodriguez'' = Some ''mrodriguez''" "''mrodriguez'' \<noteq> []"
    by simp_all
  have s: "Some ''2025-01-01T00:00:00'' = Some ''2025-01-01T00:00:00''"
    "''2025-01-01T00:00:00'' \<noteq> []"
    by simp_all
  from create_announcement_naive_against_aware
    [where teachers = teachers_example and teacher_username = "Some ''mrodriguez''"
       and u = "''mrodriguez''" and t = "''password-hash''" and lib = python
       and start_d = "Some ''2025-01-01T00:00:00''" and s = "''2025-01-01T00:00:00''"
       and end_d = "''2024-01-01T00:00:00Z''"
       and start_dt = "Naive 1735689600000000" and end_dt = "Aware 1704067200000000"
       and coll = announcements_example and now = "''2025-03-01T12:00:00.000000''"
       and inserted_id = "''65a000000000000000000004''" and msg = "''M''",
     OF auth teachers_example_mrodriguez s python_2025_01_01 python_2024_01_01_utc mixed]
    python_2025_01_01 python_2024_01_01_utc
  show ?thesis by simp
qed

text \<open>
  C4. An authorized teacher updates an existing announcement; the final \<open>start_date\<close>
  and \<open>end_date\<close> are the supplied values where supplied (an empty \<open>start_date\<close>
  clearing it) and the stored ones otherwise. When both are present and the final start
  is not before the final end, the update is to fail with InvalidArgument (400). It does
  so where Python can order the two times. When one final value parses to a naive time
  and the other to an aware one, \<^verbatim>\<open>start_dt >= end_dt\<close> raises \<^verbatim>\<open>TypeError\<close>,
  which \<^verbatim>\<open>except ValueError\<close> lets through: the request is answered 500, whatever
  the two times are. The collection is unchanged.
\<close>

theorem update_announcement_naive_against_aware:
  assumes "teacher_username = Some u" and "u \<noteq> []" and "teachers u = Some t"
    and "ObjectId lib announcement_id = Some oid" and "find_one oid coll = Some a"
    and "fromisoformat lib [] = None"
    and "(case start_d of None \<Rightarrow> start_date a
          | Some s \<Rightarrow> if s = [] then None else Some s) = Some fs"
    and "(case end_d of None \<Rightarrow> end_date a | Some e \<Rightarrow> e) = fe"
    and "fromisoformat lib (replace_Z fs) = Some start_dt"
    and "fromisoformat lib (replace_Z fe) = Some end_dt"
    and "(\<exists>x y. start_dt = Naive x \<and> end_dt = Aware y) \<or>
         (\<exists>x y. start_dt = Aware x \<and> end_dt = Naive y)"
  shows
    "update_announcement lib teachers coll announcement_id msg end_d start_d teacher_username =
       (Inl TypeError, coll) \<and>
     status_code TypeError = 500"
proof -
  have auth: "check_teacher_authentication teachers teacher_username = Inr u"
    using assms(1-3) by (simp add: check_Inr)
  have ne: "fs \<noteq> []" "fe \<noteq> []"
    using assms(6,9,10) by (auto simp: replace_Z_Nil)
  obtain uf where uf: "build_update_fields lib msg end_d start_d = Inr uf"
    and fin: "final_start uf a = Some fs" "final_end uf a = fe"
    using assms(7-10)
    by (auto simp: build_update_fields_def final_start_def final_end_def
        split: option.splits if_splits)
  from assms(11) have "dt_ge start_dt end_dt = None" by auto
  then have "validate_date_logic lib (Some fs) fe = Some TypeError"
    using ne assms(9,10) by (simp add: validate_date_logic_def)
  then show ?thesis
    using assms(4,5) uf fin by (simp add: update_announcement_def auth)
qed

text \<open>
  The first example announcement starts on 1 January 2025 (no offset). An update moving
  its end to 1 January 2024 (UTC) leaves a start a year after the end, and the answer is
  not 400.
\<close>

theorem update_announcement_naive_against_aware_witness:
  "start_date announcement1 = Some ''2025-01-01T00:00:00'' \<and>
   fromisoformat python (replace_Z ''2025-01-01T00:00:00'') = Some (Naive 1735689600000000) \<and>
   fromisoformat python (replace_Z ''2024-01-01T00:00:00Z'') = Some (Aware 1704067200000000) \<and>
   update_announcement python teachers_example announcements_example
     ''65a000000000000000000001'' None (Some ''2024-01-01T00:00:00Z'') None (Some ''mrodriguez'') =
     (Inl TypeError, announcements_example)"
proof -
  have mixed: "(\<exists>x y. Naive 1735689600000000 = Naive x \<and> Aware 1704067200000000 = Aware y) \<or>
         (\<exists>x y. Naive 1735689600000000 = Aware x \<and> Aware 1704067200000000 = Naive y)"
    by simp
  have auth: "Some ''mrodriguez'' = Some ''mrodriguez''" "''mrodriguez'' \<noteq> []"
    by simp_all
  have oid: "ObjectId python ''65a000000000000000000001'' = Some ''65a000000000000000000001''"
    by code_simp
  have st: "start_date announcement1 = Some ''2025-01-01T00:00:00''"
    by (simp add: announcement1_def)
  have fs: "(case None of None \<Rightarrow> start_date announcement1
          | Some s \<Rightarrow> if s = [] then None else Some s) = Some ''2025-01-01T00:00:00''"
    using st by simp
  have fe: "(case Some ''2024-01-01T00:00:00Z'' of None \<Rightarrow> end_date announcement1
          | Some e \<Rightarrow> e) = ''2024-01-01T00:00:00Z''"
    by simp
  from update_announcement_naive_against_aware
    [where teachers = teachers_example and teacher_username = "Some ''mrodriguez''"
       and u = "''mrodriguez''" and t = "''password-hash''" and lib = python
       and announcement_id = "''65a000000000000000000001''"
       and oid = "''65a000000000000000000001''" and coll = announcements_example
       and a = announcement1 and start_d = None and end_d = "Some ''2024-01-01T00:00:00Z''"
       and fs = "''2025-01-01T00:00:00''" and fe = "''2024-01-01T00:00:00Z''"
       and start_dt = "Naive 1735689600000000" and end_dt = "Aware 1704067200000000"
       and msg = None,
     OF auth teachers_example_mrodriguez oid find_one_announcement1 python_rejects_empty
        fs fe python_2025_01_01 python_2024_01_01_utc mixed]
    st python_2025_01_01 python_2024_01_01_utc
  show ?thesis by simp
qed

text \<open>
  C5. An authorized teacher updates or deletes. An identifier that is not well-formed is
  answered InvalidArgument (400); a well-formed identifier of no stored announcement is
  answered NotFound (404). In both cases the collection is unchanged.
\<close>

theorem update_delete_malformed_or_missing_id:
  assumes "teacher_username = Some u" and "u \<noteq> []" and "teachers u = Some t"
  shows
    "(ObjectId lib announcement_id = None \<longrightarrow>
        update_announcement lib teachers coll announcement_id msg end_d start_d teacher_username =
          (Inl (HTTPException 400 ''Invalid announcement ID''), coll) \<and>
        delete_announcement lib teachers coll announcement_id teacher_username =
          (Inl (HTTPException 400 ''Invalid announcement ID''), coll)) \<and>
     (\<forall>oid. ObjectId lib announcement_id = Some oid \<and> (\<forall>a\<in>set coll. doc_id a \<noteq> oid) \<longrightarrow>
        update_announcement lib teachers coll announcement_id msg end_d start_d teacher_username =
          (Inl (HTTPException 404 ''Announcement not found''), coll) \<and>
        delete_announcement lib teachers coll announcement_id teacher_username =
          (Inl (HTTPException 404 ''Announcement not found''), coll))"
proof -
  have auth: "check_teacher_authentication teachers teacher_username = Inr u"
    using assms by (simp add: check_Inr)
  show ?thesis
    by (auto simp: update_announcement_def delete_announcement_def auth
        find_one_None_iff[symmetric] delete_one_absent split: option.splits)
qed

theorem update_delete_malformed_or_missing_id_witness:
  "update_announcement python teachers_example announcements_example ''not-a-valid-id''
     (Some ''Exams moved'') None None (Some ''mrodriguez'') =
     (Inl (HTTPException 400 ''Invalid announcement ID''), announcements_example) \<and>
   delete_announcement python teachers_example announcements_example ''not-a-valid-id''
     (Some ''mrodriguez'') =
     (Inl (HTTPException 400 ''Invalid announcement ID''), announcements_example) \<and>
   update_announcement python teachers_example announcements_example
     ''65a000000000000000000009'' (Some ''Exams moved'') None None (Some ''mrodriguez'') =
     (Inl (HTTPException 404 ''Announcement not found''), announcements_example) \<and>
   delete_announcement python teachers_example announcements_example
     ''65a000000000000000000009'' (Some ''mrodriguez'') =
     (Inl (HTTPException 404 ''Announcement not found''), announcements_example)"
proof -
  have bad: "ObjectId python ''not-a-valid-id'' = None"
    by code_simp
  have good: "ObjectId python ''65a000000000000000000009'' = Some ''65a000000000000000000009''"
    by code_simp
  have missing: "\<forall>a\<in>set announcements_example. doc_id a \<noteq> ''65a000000000000000000009''"
    by (simp add: announcements_example_def announcement1_def announcement2_def
        announcement3_def)
  have auth: "Some ''mrodriguez'' = Some ''mrodriguez''" "''mrodriguez'' \<noteq> []"
    by simp_all
  from update_delete_malformed_or_missing_id
      [where teachers = teachers_example and teacher_username = "Some ''mrodriguez''"
        and u = "''mrodriguez''" and t = "''password-hash''"
        and lib = python and announcement_id = "''not-a-valid-id''"
        and coll = announcements_example and msg = "Some ''Exams moved''"
        and end_d = None and start_d = None, OF auth teachers_example_mrodriguez]
    update_delete_malformed_or_missing_id
      [where teachers = teachers_example and teacher_username = "Some ''mrodriguez''"
        and u = "''mrodriguez''" and t = "''password-hash''"
        and lib = python and announcement_id = "''65a000000000000000000009''"
        and coll = announcements_example and msg = "Some ''Exams moved''"
        and end_d = None and start_d = None, OF auth teachers_example_mrodriguez]
    bad good missing
  show ?thesis by blast
qed

text \<open>
  C6. An authorized teacher updates an existing announcement. With \<open>start_date\<close>
  supplied as the empty string (and \<open>end_date\<close> not supplied, or supplied and
  parsing), the update succeeds, and the stored and the returned announcement have a null
  \<open>start_date\<close>. With \<open>start_date\<close> not supplied, whatever else is supplied and
  whatever the outcome, the stored \<open>start_date\<close> is what it was.
\<close>

theorem update_announcement_empty_start_date_clears:
  assumes "teacher_username = Some u" and "u \<noteq> []" and "teachers u = Some t"
    and "ObjectId lib announcement_id = Some oid" and "find_one oid coll = Some a"
    and "end_d = None \<or> (\<exists>e dt. end_d = Some e \<and> fromisoformat lib (replace_Z e) = Some dt)"
  shows
    "(\<exists>a' coll'.
        update_announcement lib teachers coll announcement_id msg end_d (Some [])
          teacher_username = (Inr (stringify_id lib a'), coll') \<and>
        find_one oid coll' = Some a' \<and>
        start_date a' = None \<and> start_date (stringify_id lib a') = None) \<and>
     (\<forall>msg' end_d'. \<exists>a'.
        find_one oid (snd (update_announcement lib teachers coll announcement_id msg' end_d' None
              teacher_username)) = Some a' \<and>
        start_date a' = start_date a)"
proof -
  have auth: "check_teacher_authentication teachers teacher_username = Inr u"
    using assms(1-3) by (simp add: check_Inr)
  let ?uf = "\<lparr>set_message = msg, set_end_date = end_d, set_start_date = Some None\<rparr>"
  have b: "build_update_fields lib msg end_d (Some []) = Inr ?uf"
    using assms(6) by (auto simp: build_update_fields_def)
  have v: "validate_date_logic lib (final_start ?uf a) (final_end ?uf a) = None"
    by (simp add: validate_date_logic_def final_start_def)
  have ne: "nonempty_fields ?uf" by (simp add: nonempty_fields_def)
  have f: "find_one oid (update_one oid ?uf coll) = Some (set_fields ?uf a)"
    using assms(5) by (rule find_one_update_one)
  have first: "update_announcement lib teachers coll announcement_id msg end_d (Some [])
      teacher_username = (Inr (stringify_id lib (set_fields ?uf a)), update_one oid ?uf coll)"
    using assms(4,5) by (simp add: update_announcement_def auth b v ne f)
  have s: "start_date (set_fields ?uf a) = None"
    by (simp add: set_fields_def)
  have second: "\<exists>a'. find_one oid (snd (update_announcement lib teachers coll announcement_id
      msg' end_d' None teacher_username)) = Some a' \<and> start_date a' = start_date a"
    for msg' end_d'
  proof (cases "build_update_fields lib msg' end_d' None")
    case (Inl e)
    then show ?thesis using assms(4,5) by (simp add: update_announcement_def auth)
  next
    case (Inr uf)
    then have "set_start_date uf = None" by (auto dest: build_update_fields_Inr)
    then have keep: "start_date (set_fields uf a) = start_date a"
      by (simp add: set_fields_def)
    show ?thesis
    proof (cases "validate_date_logic lib (final_start uf a) (final_end uf a)")
      case (Some e)
      then show ?thesis using assms(4,5) Inr by (simp add: update_announcement_def auth)
    next
      case None
      then show ?thesis
        using assms(4,5) Inr keep find_one_update_one[OF assms(5), of uf]
        by (simp add: update_announcement_def auth)
    qed
  qed
  show ?thesis
    using first f s second by (auto simp: stringify_id_def)
qed

text \<open>The first example announcement has a \<open>start_date\<close>; the update clears it.\<close>

theorem update_announcement_empty_start_date_clears_witness:
  "start_date announcement1 = Some ''2025-01-01T00:00:00'' \<and>
   (\<exists>a' coll'.
        update_announcement python teachers_example announcements_example
          ''65a000000000000000000001'' None None (Some []) (Some ''mrodriguez'') =
          (Inr (stringify_id python a'), coll') \<and>
        find_one ''65a000000000000000000001'' coll' = Some a' \<and>
        start_date a' = None \<and> start_date (stringify_id python a') = None) \<and>
   (\<exists>a'. find_one ''65a000000000000000000001''
            (snd (update_announcement python teachers_example announcements_example
               ''65a000000000000000000001'' (Some ''Exams moved'') None None
               (Some ''mrodriguez''))) = Some a' \<and>
          start_date a' = start_date announcement1)"
proof -
  have auth: "Some ''mrodriguez'' = Some ''mrodriguez''" "''mrodriguez'' \<noteq> []"
    by simp_all
  have oid: "ObjectId python ''65a000000000000000000001'' = Some ''65a000000000000000000001''"
    by code_simp
  have e: "None = None \<or>
      (\<exists>e dt. None = Some e \<and> fromisoformat python (replace_Z e) = Some dt)"
    by simp
  note inst = update_announcement_empty_start_date_clears
    [where teachers = teachers_example and teacher_username = "Some ''mrodriguez''"
       and u = "''mrodriguez''" and t = "''password-hash''" and lib = python
       and announcement_id = "''65a000000000000000000001''"
       and oid = "''65a000000000000000000001''" and coll = announcements_example
       and a = announcement1 and end_d = None and msg = None,
     OF auth teachers_example_mrodriguez oid find_one_announcement1 e]
  have "start_date announcement1 = Some ''2025-01-01T00:00:00''"
    by (simp add: announcement1_def)
  with inst show ?thesis by blast
qed

text \<open>
  C7. A successful update changes one announcement of the collection, the one with the
  given identifier, and returns it as stored afterwards (its identifier as a string).
  Its \<open>message\<close>, \<open>end_date\<close> and \<open>start_date\<close> are the supplied values where
  supplied (an empty \<open>start_date\<close> storing null) and the prior values otherwise; its
  identifier, \<open>created_by\<close> and \<open>created_at\<close> are the prior values.
\<close>

theorem update_announcement_changes_only_supplied_fields:
  assumes "update_announcement lib teachers coll announcement_id msg end_d start_d
             teacher_username = (Inr r, coll')"
  shows "\<exists>oid a a' k.
     ObjectId lib announcement_id = Some oid \<and> find_one oid coll = Some a \<and>
     k < length coll \<and> coll ! k = a \<and> coll' = coll[k := a'] \<and>
     find_one oid coll' = Some a' \<and> r = stringify_id lib a' \<and>
     doc_id a' = doc_id a \<and> created_by a' = created_by a \<and> created_at a' = created_at a \<and>
     message a' = (case msg of None \<Rightarrow> message a | Some m \<Rightarrow> m) \<and>
     end_date a' = (case end_d of None \<Rightarrow> end_date a | Some e \<Rightarrow> e) \<and>
     start_date a' =
       (case start_d of None \<Rightarrow> start_date a | Some s \<Rightarrow> if s = [] then None else Some s)"
proof -
  from assms obtain oid a uf where
    oid: "ObjectId lib announcement_id = Some oid" and a: "find_one oid coll = Some a"
    and uf: "build_update_fields lib msg end_d start_d = Inr uf"
    and rest: "(let coll'' = (if nonempty_fields uf then update_one oid uf coll else coll)
                in case find_one oid coll'' of None \<Rightarrow> (Inl TypeError, coll'')
                   | Some updated \<Rightarrow> (Inr (stringify_id lib updated), coll'')) = (Inr r, coll')"
    by (auto simp: update_announcement_def split: sum.splits option.splits)
  from update_one_list_update[OF a, of uf] obtain k where
    k: "k < length coll" "coll ! k = a" "update_one oid uf coll = coll[k := set_fields uf a]"
    by blast
  let ?a' = "set_fields uf a"
  have c': "coll' = coll[k := ?a']" and f': "find_one oid coll' = Some ?a'"
    and r: "r = stringify_id lib ?a'"
    using rest a k find_one_update_one[OF a, of uf]
    by (auto simp: Let_def set_fields_empty split: if_splits option.splits)
  have fields: "doc_id ?a' = doc_id a" "created_by ?a' = created_by a"
    "created_at ?a' = created_at a"
    "message ?a' = (case msg of None \<Rightarrow> message a | Some m \<Rightarrow> m)"
    "end_date ?a' = (case end_d of None \<Rightarrow> end_date a | Some e \<Rightarrow> e)"
    "start_date ?a' =
       (case start_d of None \<Rightarrow> start_date a | Some s \<Rightarrow> if s = [] then None else Some s)"
    using build_update_fields_Inr[OF uf] by (auto simp: set_fields_def split: option.splits)
  show ?thesis
    using oid a k(1,2) c' f' r fields by blast
qed

text \<open>An update of the message alone, on the first example announcement.\<close>

theorem update_announcement_changes_only_supplied_fields_witness:
  "update_announcement python teachers_example announcements_example
     ''65a000000000000000000001'' (Some ''Exams moved'') None None (Some ''mrodriguez'') =
     (Inr (announcement1\<lparr>message := ''Exams moved''\<rparr>),
      [announcement1\<lparr>message := ''Exams moved''\<rparr>, announcement2, announcement3]) \<and>
   (\<exists>oid a a' k.
     ObjectId python ''65a000000000000000000001'' = Some oid \<and>
     find_one oid announcements_example = Some a \<and>
     k < length announcements_example \<and> announcements_example ! k = a \<and>
     [announcement1\<lparr>message := ''Exams moved''\<rparr>, announcement2, announcement3] =
       announcements_example[k := a'] \<and>
     announcement1\<lparr>message := ''Exams moved''\<rparr> = stringify_id python a' \<and>
     doc_id a' = doc_id a \<and> created_by a' = created_by a \<and> created_at a' = created_at a \<and>
     message a' = ''Exams moved'' \<and> end_date a' = end_date a \<and> start_date a' = start_date a)"
proof -
  have run: "update_announcement python teachers_example announcements_example
     ''65a000000000000000000001'' (Some ''Exams moved'') None None (Some ''mrodriguez'') =
     (Inr (announcement1\<lparr>message := ''Exams moved''\<rparr>),
      [announcement1\<lparr>message := ''Exams moved''\<rparr>, announcement2, announcement3])"
    by code_simp
  from update_announcement_changes_only_supplied_fields[OF run] run
  show ?thesis by simp blast
qed

text \<open>
  C8. An authorized create whose \<open>end_date\<close> ends in \<^verbatim>\<open>Z\<close> hands the parser the
  string with that \<^verbatim>\<open>Z\<close> replaced by \<^verbatim>\<open>+00:00\<close>, and the parser's answer on
  that string decides the request: when it does not parse, the create fails with
  InvalidArgument (400) and nothing is persisted; when it parses (and the \<open>start_date\<close>
  is absent, empty, or parses to a time before the end), the create succeeds, and the
  stored and the returned \<open>end_date\<close> are the supplied string, with its \<^verbatim>\<open>Z\<close>.
\<close>

theorem create_announcement_Z_suffix:
  assumes "teacher_username = Some u" and "u \<noteq> []" and "teachers u = Some t"
    and "a = \<lparr>doc_id = inserted_id, message = msg, start_date = start_d,
              end_date = stem @ ''Z'', created_by = u, created_at = now\<rparr>"
  shows
    "(fromisoformat lib (replace_Z stem @ ''+00:00'') = None \<longrightarrow>
        create_announcement lib teachers coll now inserted_id msg (stem @ ''Z'') start_d
          teacher_username =
          (Inl (HTTPException 400
                  ''Invalid date format. Use ISO format (YYYY-MM-DDTHH:MM:SS)''), coll)) \<and>
     (\<forall>end_dt.
        fromisoformat lib (replace_Z stem @ ''+00:00'') = Some end_dt \<and>
        (start_d = None \<or> start_d = Some [] \<or>
         (\<exists>s start_dt. start_d = Some s \<and> fromisoformat lib (replace_Z s) = Some start_dt \<and>
            dt_ge start_dt end_dt = Some False)) \<longrightarrow>
        create_announcement lib teachers coll now inserted_id msg (stem @ ''Z'') start_d
          teacher_username = (Inr (stringify_id lib a), coll @ [a]) \<and>
        end_date a = stem @ ''Z'' \<and> end_date (stringify_id lib a) = stem @ ''Z'')"
proof -
  have auth: "check_teacher_authentication teachers teacher_username = Inr u"
    using assms(1-3) by (simp add: check_Inr)
  show ?thesis
    using assms(4)
    by (auto simp: create_announcement_def auth Let_def replace_Z_Z_suffix stringify_id_def)
qed

text \<open>
  The scenario of the specification: \<open>end_date\<close> 2030-01-01T00:00:00Z, which the parser
  of the instance does not read as it stands and reads with \<^verbatim>\<open>+00:00\<close>; the create
  succeeds and keeps the \<^verbatim>\<open>Z\<close>. With month 13 the replaced string does not parse and
  the create is refused.
\<close>

theorem create_announcement_Z_suffix_witness:
  "fromisoformat python ''2030-01-01T00:00:00Z'' = None \<and>
   fromisoformat python ''2030-01-01T00:00:00+00:00'' = Some (Aware 1893456000000000) \<and>
   create_announcement python teachers_example announcements_example
     ''2025-03-01T12:00:00.000000'' ''65a000000000000000000004'' ''M''
     ''2030-01-01T00:00:00Z'' None (Some ''mrodriguez'') =
     (Inr \<lparr>doc_id = ''65a000000000000000000004'', message = ''M'', start_date = None,
           end_date = ''2030-01-01T00:00:00Z'', created_by = ''mrodriguez'',
           created_at = ''2025-03-01T12:00:00.000000''\<rparr>,
      announcements_example @
      [\<lparr>doc_id = ''65a000000000000000000004'', message = ''M'', start_date = None,
        end_date = ''2030-01-01T00:00:00Z'', created_by = ''mrodriguez'',
        created_at = ''2025-03-01T12:00:00.000000''\<rparr>]) \<and>
   create_announcement python teachers_example announcements_example
     ''2025-03-01T12:00:00.000000'' ''65a000000000000000000004'' ''M''
     ''2030-13-01T00:00:00Z'' None (Some ''mrodriguez'') =
     (Inl (HTTPException 400 ''Invalid date format. Use ISO format (YYYY-MM-DDTHH:MM:SS)''),
      announcements_example)"
proof -
  let ?a = "\<lparr>doc_id = ''65a000000000000000000004'', message = ''M'', start_date = None,
     end_date = ''2030-01-01T00:00:00Z'', created_by = ''mrodriguez'',
     created_at = ''2025-03-01T12:00:00.000000''\<rparr>"
  have auth: "Some ''mrodriguez'' = Some ''mrodriguez''" "''mrodriguez'' \<noteq> []"
    by simp_all
  have a: "?a = \<lparr>doc_id = ''65a000000000000000000004'', message = ''M'', start_date = None,
     end_date = ''2030-01-01T00:00:00'' @ ''Z'', created_by = ''mrodriguez'',
     created_at = ''2025-03-01T12:00:00.000000''\<rparr>"
    by simp
  have s: "stringify_id python ?a = ?a"
    by (simp add: stringify_id_def python_def)
  have good: "fromisoformat python ''2030-01-01T00:00:00+00:00'' = Some (Aware 1893456000000000)"
    using python_2030_01_01_utc by (simp add: replace_Z_def)
  note ok = create_announcement_Z_suffix
    [where teachers = teachers_example and teacher_username = "Some ''mrodriguez''"
       and u = "''mrodriguez''" and t = "''password-hash''" and lib = python
       and stem = "''2030-01-01T00:00:00''" and start_d = None
       and coll = announcements_example and now = "''2025-03-01T12:00:00.000000''"
       and inserted_id = "''65a000000000000000000004''" and msg = "''M''" and a = ?a,
     OF auth teachers_example_mrodriguez a, THEN conjunct2, rule_format,
     of "Aware 1893456000000000"]
  have 1: "create_announcement python teachers_example announcements_example
     ''2025-03-01T12:00:00.000000'' ''65a000000000000000000004'' ''M''
     ''2030-01-01T00:00:00Z'' None (Some ''mrodriguez'') = (Inr ?a, announcements_example @ [?a])"
    using ok python_2030_01_01_utc s by simp
  note bad = create_announcement_Z_suffix
    [where teachers = teachers_example and teacher_username = "Some ''mrodriguez''"
       and u = "''mrodriguez''" and t = "''password-hash''" and lib = python
       and stem = "''2030-13-01T00:00:00''" and start_d = None
       and coll = announcements_example and now = "''2025-03-01T12:00:00.000000''"
       and inserted_id = "''65a000000000000000000004''" and msg = "''M''",
     OF auth teachers_example_mrodriguez refl, THEN conjunct1, rule_format]
  have 2: "create_announcement python teachers_example announcements_example
     ''2025-03-01T12:00:00.000000'' ''65a000000000000000000004'' ''M''
     ''2030-13-01T00:00:00Z'' None (Some ''mrodriguez'') =
     (Inl (HTTPException 400 ''Invalid date format. Use ISO format (YYYY-MM-DDTHH:MM:SS)''),
      announcements_example)"
    using bad python_2030_13_01_utc by simp
  from python_without_replace_Z good 1 2 show ?thesis by simp
qed

text \<open>
  C10. An authorized create with an \<open>end_date\<close> that parses and \<open>start_date\<close> supplied
  as the empty string succeeds without looking at the \<open>start_date\<close>: the stored and the
  returned announcement have the empty string as \<open>start_date\<close>, not null. At every
  time, list-active counts it as started: it is listed exactly while its \<open>end_date\<close> is
  not before the current time.
\<close>

theorem create_announcement_empty_start_date:
  assumes "teacher_username = Some u" and "u \<noteq> []" and "teachers u = Some t"
    and "fromisoformat lib (replace_Z end_d) = Some end_dt"
    and "a = \<lparr>doc_id = inserted_id, message = msg, start_date = Some [], end_date = end_d,
              created_by = u, created_at = now\<rparr>"
  shows "create_announcement lib teachers coll now inserted_id msg end_d (Some [])
            teacher_username = (Inr (stringify_id lib a), coll @ [a]) \<and>
         start_date a = Some [] \<and> start_date (stringify_id lib a) = Some [] \<and>
         (\<forall>now'. active_query now' a = (now' \<le> end_d)) \<and>
         (\<forall>now'. stringify_id lib a \<in> set (get_active_announcements lib (coll @ [a]) now')
                   \<longleftrightarrow> now' \<le> end_d)"
proof -
  have auth: "check_teacher_authentication teachers teacher_username = Inr u"
    using assms(1-3) by (simp add: check_Inr)
  have c: "create_announcement lib teachers coll now inserted_id msg end_d (Some [])
            teacher_username = (Inr (stringify_id lib a), coll @ [a])"
    using assms(4,5) by (simp add: create_announcement_def auth Let_def)
  have q: "active_query now' a = (now' \<le> end_d)" for now'
    using assms(5) by (simp add: active_query_def)
  have m: "stringify_id lib a \<in> set (get_active_announcements lib (coll @ [a]) now')
                   \<longleftrightarrow> now' \<le> end_d" for now'
  proof
    assume "stringify_id lib a \<in> set (get_active_announcements lib (coll @ [a]) now')"
    then obtain b where "active_query now' b" "stringify_id lib b = stringify_id lib a"
      unfolding set_get_active_announcements by force
    then have "now' \<le> end_date b" "end_date b = end_date a"
      by (auto simp: active_query_def stringify_id_def)
    then show "now' \<le> end_d" using assms(5) by simp
  next
    assume "now' \<le> end_d"
    then show "stringify_id lib a \<in> set (get_active_announcements lib (coll @ [a]) now')"
      using q unfolding set_get_active_announcements by simp
  qed
  show ?thesis using c q m assms(5) by (simp add: stringify_id_def)
qed

text \<open>
  A create on 1 March 2025 with an empty \<open>start_date\<close> and an \<open>end_date\<close> far ahead:
  the announcement is listed as active at once.
\<close>

theorem create_announcement_empty_start_date_witness:
  "create_announcement python teachers_example announcements_example
     ''2025-03-01T12:00:00.000000'' ''65a000000000000000000004'' ''M'' ''2030-01-01T00:00:00Z''
     (Some []) (Some ''mrodriguez'') =
     (Inr \<lparr>doc_id = ''65a000000000000000000004'', message = ''M'', start_date = Some [],
           end_date = ''2030-01-01T00:00:00Z'', created_by = ''mrodriguez'',
           created_at = ''2025-03-01T12:00:00.000000''\<rparr>,
      announcements_example @
      [\<lparr>doc_id = ''65a000000000000000000004'', message = ''M'', start_date = Some [],
        end_date = ''2030-01-01T00:00:00Z'', created_by = ''mrodriguez'',
        created_at = ''2025-03-01T12:00:00.000000''\<rparr>]) \<and>
   \<lparr>doc_id = ''65a000000000000000000004'', message = ''M'', start_date = Some [],
     end_date = ''2030-01-01T00:00:00Z'', created_by = ''mrodriguez'',
     created_at = ''2025-03-01T12:00:00.000000''\<rparr>
   \<in> set (get_active_announcements python
       (announcements_example @
        [\<lparr>doc_id = ''65a000000000000000000004'', message = ''M'', start_date = Some [],
          end_date = ''2030-01-01T00:00:00Z'', created_by = ''mrodriguez'',
          created_at = ''2025-03-01T12:00:00.000000''\<rparr>])
       ''2025-03-01T12:00:01.000000'')"
proof -
  let ?a = "\<lparr>doc_id = ''65a000000000000000000004'', message = ''M'', start_date = Some [],
     end_date = ''2030-01-01T00:00:00Z'', created_by = ''mrodriguez'',
     created_at = ''2025-03-01T12:00:00.000000''\<rparr>"
  have auth: "Some ''mrodriguez'' = Some ''mrodriguez''" "''mrodriguez'' \<noteq> []"
    by simp_all
  have p: "fromisoformat python (replace_Z ''2030-01-01T00:00:00Z'') =
      Some (Aware 1893456000000000)"
    using python_2030_01_01_utc by (simp add: replace_Z_def)
  have s: "stringify_id python ?a = ?a"
    by (simp add: stringify_id_def python_def)
  have le: "(''2025-03-01T12:00:01.000000'' :: string) \<le> ''2030-01-01T00:00:00Z''"
    by simp
  from create_announcement_empty_start_date
    [where teachers = teachers_example and teacher_username = "Some ''mrodriguez''"
       and u = "''mrodriguez''" and t = "''password-hash''" and lib = python
       and end_d = "''2030-01-01T00:00:00Z''" and end_dt = "Aware 1893456000000000"
       and coll = announcements_example and now = "''2025-03-01T12:00:00.000000''"
       and inserted_id = "''65a000000000000000000004''" and msg = "''M''" and a = ?a,
     OF auth teachers_example_mrodriguez p refl]
  show ?thesis unfolding s using le by blast
qed

end
